theory Spec2Isabelle
  imports Complex_Main "HOL-Library.Multiset"
begin

section \<open>Data model\<close>

text \<open>
  A cell of a pandas table. \<open>NaN\<close> is the floating-point missing value, \<open>PyNone\<close> is
  Python's \<open>None\<close>; both count as missing for \<open>fillna\<close>. Numbers (Python ints and
  floats alike) are modelled as reals: the pipeline only copies and compares them, the
  plotting routine subtracts them.
\<close>

datatype cell = NaN | PyNone | Num real | Str string | Bool bool

text \<open>
  The exceptions of the program. The first four are the Python built-ins that the
  pandas and dictionary operations of the source raise; \<open>ServiceError\<close> stands for
  whatever the remote lookup raises. \<open>EmptyBatchError\<close> is the error named by the
  specification: no line of the source constructs it.
\<close>

datatype error =
    KeyError string
  | ValueError string
  | AttributeError string
  | TypeError string
  | ServiceError string
  | EmptyBatchError

type_synonym table = "(string \<times> cell list) list"

text \<open>A \<open>pd.DataFrame\<close>: the row labels and the named columns, in column order.\<close>

record frame =
  index :: "cell list"
  columns :: table

text \<open>
  A \<open>NestedFrame\<close>: a frame whose rows also carry, per nested column, an optional
  sub-table (\<open>None\<close> is the null entry a left join leaves on a row with no match).
\<close>

record nested_frame = frame +
  nested :: "(string \<times> table option list) list"

text \<open>An \<open>antares_client\<close> locus: the measurement table, the property dictionary, the coordinates.\<close>

record locus =
  lightcurve :: frame
  properties :: "string \<rightharpoonup> cell"
  ra :: cell
  dec :: cell

text \<open>
  What pandas guarantees of every frame: column names are distinct (the source indexes
  columns by name) and every column has one cell per row.
\<close>

definition wf_frame :: "frame \<Rightarrow> bool" where
  "wf_frame df \<longleftrightarrow>
     distinct (map fst (columns df)) \<and>
     list_all (\<lambda>kc. length (snd kc) = length (index df)) (columns df)"

section \<open>The pandas operations the source calls\<close>

text \<open>Sequencing of calls that may raise: the first exception ends the computation.\<close>

definition and_then :: "error + 'a \<Rightarrow> ('a \<Rightarrow> error + 'b) \<Rightarrow> error + 'b" where
  "and_then m f = (case m of Inl e \<Rightarrow> Inl e | Inr x \<Rightarrow> f x)"

definition isna :: "cell \<Rightarrow> bool" where
  "isna c \<longleftrightarrow> c = NaN \<or> c = PyNone"

text \<open>
  Python's \<open>==\<close> on cells: numbers by value, \<open>True == 1\<close> and \<open>False == 0\<close>, a missing
  value equal to nothing.
\<close>

fun py_eq :: "cell \<Rightarrow> cell \<Rightarrow> bool" where
  "py_eq (Num a) (Num b) = (a = b)"
| "py_eq (Str s) (Str t) = (s = t)"
| "py_eq (Bool a) (Bool b) = (a = b)"
| "py_eq (Bool a) (Num b) = (b = (if a then 1 else 0))"
| "py_eq (Num a) (Bool b) = (a = (if b then 1 else 0))"
| "py_eq _ _ = False"

text \<open>\<open>df[name]\<close>\<close>

definition getitem :: "('a frame_scheme) \<Rightarrow> string \<Rightarrow> error + cell list" where
  "getitem df name =
     (case map_of (columns df) name of
        None \<Rightarrow> Inl (KeyError name)
      | Some c \<Rightarrow> Inr c)"

text \<open>\<open>df[[name, ...]].copy()\<close>: the named columns in the order asked for.\<close>

definition getitem_list :: "frame \<Rightarrow> string list \<Rightarrow> error + frame" where
  "getitem_list df names =
     (case filter (\<lambda>k. map_of (columns df) k = None) names of
        k # _ \<Rightarrow> Inl (KeyError k)
      | [] \<Rightarrow> Inr \<lparr>index = index df,
                  columns = map (\<lambda>k. (k, case map_of (columns df) k of
                                            Some c \<Rightarrow> c | None \<Rightarrow> [])) names\<rparr>)"

text \<open>\<open>s.fillna(other)\<close> for two columns of one frame: row by row.\<close>

definition fillna :: "cell list \<Rightarrow> cell list \<Rightarrow> cell list" where
  "fillna s other = map (\<lambda>(a, b). if isna a then b else a) (zip s other)"

text \<open>\<open>df[name] = column\<close>: overwrite in place, or append a new column.\<close>

definition setitem :: "frame \<Rightarrow> string \<Rightarrow> cell list \<Rightarrow> frame" where
  "setitem df name c =
     df\<lparr>columns :=
          (if name \<in> set (map fst (columns df))
           then map (\<lambda>(k, old). (k, if k = name then c else old)) (columns df)
           else columns df @ [(name, c)])\<rparr>"

text \<open>\<open>df.drop(columns=[...])\<close>\<close>

definition drop_columns :: "frame \<Rightarrow> string list \<Rightarrow> error + frame" where
  "drop_columns df names =
     (case filter (\<lambda>k. k \<notin> set (map fst (columns df))) names of
        k # _ \<Rightarrow> Inl (KeyError k)
      | [] \<Rightarrow> Inr (df\<lparr>columns := filter (\<lambda>(k, c). k \<notin> set names) (columns df)\<rparr>))"

text \<open>\<open>df.rename(columns={...})\<close>\<close>

definition rename :: "frame \<Rightarrow> (string \<times> string) list \<Rightarrow> frame" where
  "rename df mapping =
     df\<lparr>columns :=
          map (\<lambda>(k, c). (case map_of mapping k of None \<Rightarrow> k | Some k' \<Rightarrow> k', c)) (columns df)\<rparr>"

text \<open>
  \<open>s.replace([a, ...], [b, ...])\<close>: every cell equal to a listed value becomes the
  value listed at the same position; the matches are taken on the original column.
\<close>

definition replace :: "cell list \<Rightarrow> cell list \<Rightarrow> cell list \<Rightarrow> cell list" where
  "replace s to_replace val =
     map (\<lambda>v. case find (\<lambda>(a, b). py_eq v a) (zip to_replace val) of
                 None \<Rightarrow> v
               | Some (a, b) \<Rightarrow> b) s"

text \<open>\<open>df.index = [label] * len(df)\<close>\<close>

definition set_index_all :: "frame \<Rightarrow> cell \<Rightarrow> frame" where
  "set_index_all df label = df\<lparr>index := replicate (length (index df)) label\<rparr>"

section \<open>Record normalizer\<close>

definition format_antares_lc :: "locus \<Rightarrow> error + frame" where
  "format_antares_lc locus =
     and_then (getitem_list (lightcurve locus)
        [''ant_mjd'', ''ant_survey'', ''ant_passband'', ''ant_mag'', ''ant_magerr'', ''ant_maglim''])
     (\<lambda>lc. and_then (getitem lc ''ant_mag'')
     (\<lambda>mag. and_then (getitem lc ''ant_maglim'')
     (\<lambda>maglim. let lc = setitem lc ''ant_mag'' (fillna mag maglim) in
      and_then (drop_columns lc [''ant_maglim''])
     (\<lambda>lc. let lc = rename lc
               [(''ant_mjd'', ''mjd''), (''ant_survey'', ''non_detection''),
                (''ant_passband'', ''band''), (''ant_mag'', ''magnitude''),
                (''ant_magerr'', ''magnitude_error'')] in
      and_then (getitem lc ''non_detection'')
     (\<lambda>nd. let lc = setitem lc ''non_detection''
                 (replace nd [Num 1, Num 2] [Bool False, Bool True]) in
      and_then (getitem lc ''band'')
     (\<lambda>band. let lc = setitem lc ''band''
                 (replace band
                    [Str ''g'', Str ''R'', Str ''r'', Str ''G'', Str ''i'', Str ''I'']
                    [Str ''ztfg'', Str ''ztfr'', Str ''ztfr'', Str ''ztfg'', Str ''ztfi'', Str ''ztfi'']) in
      (case properties locus ''ztf_object_id'' of
         None \<Rightarrow> Inl (KeyError ''ztf_object_id'')
       | Some ztf_object_id \<Rightarrow> Inr (set_index_all lc ztf_object_id))))))))"

definition meta_keys :: "string list" where
  "meta_keys =
     [''ztf_object_id'', ''num_mag_values'', ''num_alerts'',
      ''brightest_alert_magnitude'', ''brightest_alert_observation_time'',
      ''newest_alert_magnitude'', ''newest_alert_observation_time'',
      ''oldest_alert_magnitude'', ''oldest_alert_observation_time'', ''survey'']"

text \<open>\<open>properties.get(key, None)\<close>\<close>

definition get_or_none :: "(string \<rightharpoonup> cell) \<Rightarrow> string \<Rightarrow> cell" where
  "get_or_none d key = (case d key of None \<Rightarrow> PyNone | Some v \<Rightarrow> v)"

text \<open>
  \<open>pd.DataFrame([{...}])\<close> is a one-row frame with the default row label 0;
  \<open>meta["ra"] = locus.ra\<close> stores the scalar on every row.
\<close>

definition format_antares_meta :: "locus \<Rightarrow> error + frame" where
  "format_antares_meta locus =
     (let meta = \<lparr>index = [Num 0],
                  columns = map (\<lambda>key. (key, [get_or_none (properties locus) key])) meta_keys\<rparr>;
          meta = setitem meta ''ra'' (replicate (length (index meta)) (ra locus));
          meta = setitem meta ''dec'' (replicate (length (index meta)) (dec locus))
      in case properties locus ''ztf_object_id'' of
           None \<Rightarrow> Inl (KeyError ''ztf_object_id'')
         | Some ztf_object_id \<Rightarrow> Inr (set_index_all meta ztf_object_id))"

section \<open>Single-object fetcher\<close>

text \<open>
  \<open>get_by_ztf_object_id\<close> is the remote collaborator: it raises, returns \<open>None\<close> when
  the object is unknown, or returns a locus. Reading \<open>None.lightcurve\<close> raises
  \<open>AttributeError\<close>. The two formatters run left to right.
\<close>

definition query_ztf_lightcurve ::
    "(string \<Rightarrow> error + locus option) \<Rightarrow> string \<Rightarrow> error + frame \<times> frame" where
  "query_ztf_lightcurve get_by_ztf_object_id ztf_object_id =
     and_then (get_by_ztf_object_id ztf_object_id)
     (\<lambda>found. case found of
        None \<Rightarrow> Inl (AttributeError ''lightcurve'')
      | Some locus \<Rightarrow>
          and_then (format_antares_lc locus)
          (\<lambda>lightcurve. and_then (format_antares_meta locus)
          (\<lambda>meta. Inr (lightcurve, meta))))"

section \<open>Dataset assembler\<close>

text \<open>The distinct values of a list, in order of first appearance (\<open>unique()\<close>).\<close>

definition unique :: "'a list \<Rightarrow> 'a list" where
  "unique xs = rev (remdups (rev xs))"

text \<open>
  \<open>pd.concat(objs)\<close>: rows stacked in list order, columns united in order of first
  appearance, a frame lacking a column filled with NaN there. An empty list raises.
\<close>

definition pd_concat :: "frame list \<Rightarrow> error + frame" where
  "pd_concat objs =
     (if objs = [] then Inl (ValueError ''No objects to concatenate'')
      else Inr \<lparr>index = concat (map index objs),
                columns =
                  map (\<lambda>k. (k, concat (map (\<lambda>df. case map_of (columns df) k of
                                                   Some c \<Rightarrow> c
                                                 | None \<Rightarrow> replicate (length (index df)) NaN) objs)))
                      (unique (concat (map (\<lambda>df. map fst (columns df)) objs)))\<rparr>)"

text \<open>\<open>df[mask]\<close> for a boolean mask with one entry per row.\<close>

definition mask_rows :: "bool list \<Rightarrow> 'a list \<Rightarrow> 'a list" where
  "mask_rows keep xs = map snd (filter fst (zip keep xs))"

definition getitem_mask :: "frame \<Rightarrow> bool list \<Rightarrow> frame" where
  "getitem_mask df keep =
     \<lparr>index = mask_rows keep (index df),
      columns = map (\<lambda>(k, c). (k, mask_rows keep c)) (columns df)\<rparr>"

text \<open>
  \<open>nested_pandas\<close> packs a flat frame into one sub-table per distinct row label, and
  \<open>add_nested\<close> joins the packed column to the base frame on the row labels with its
  default \<open>how="left"\<close>: every base row is kept, and a base row whose label has no
  packed entry gets a null. A base column of the same name makes the join raise.
\<close>

definition pack_flat :: "frame \<Rightarrow> (cell \<times> table) list" where
  "pack_flat obj =
     map (\<lambda>i. (i, columns (getitem_mask obj (map (\<lambda>j. j = i) (index obj)))))
         (unique (index obj))"

definition add_nested :: "frame \<Rightarrow> frame \<Rightarrow> string \<Rightarrow> error + nested_frame" where
  "add_nested df obj name =
     (if name \<in> set (map fst (columns df))
      then Inl (ValueError ''columns overlap but no suffix specified'')
      else Inr \<lparr>index = index df, columns = columns df,
                nested = [(name, map (map_of (pack_flat obj)) (index df))]\<rparr>)"

definition lcs_to_nested_df :: "frame \<Rightarrow> frame \<Rightarrow> error + nested_frame" where
  "lcs_to_nested_df lightcurves meta = add_nested meta lightcurves ''lightcurve''"

text \<open>\<open>reset_index(drop=True)\<close>: the row labels become 0, 1, ...; the old labels are dropped.\<close>

definition reset_index_drop :: "nested_frame \<Rightarrow> nested_frame" where
  "reset_index_drop df = df\<lparr>index := map (\<lambda>i. Num (real i)) [0..<length (index df)]\<rparr>"

section \<open>Batch scheduler\<close>

text \<open>
  \<open>as_completed\<close> yields the submitted futures in the order they finish. The order is
  not determined by the program, so it is a parameter: \<open>arrival\<close> lists the positions
  of the submitted tasks in finishing order, a rearrangement of \<open>0 ..< N\<close>.
\<close>

definition as_completed :: "nat list \<Rightarrow> 'a list \<Rightarrow> 'a list" where
  "as_completed arrival futures = map (\<lambda>i. futures ! i) arrival"

definition arrival_order :: "nat list \<Rightarrow> 'a list \<Rightarrow> bool" where
  "arrival_order arrival futures \<longleftrightarrow> mset arrival = mset [0..<length futures]"

text \<open>The collecting loop: a result is appended to both lists, an exception is skipped.\<close>

fun collect :: "(error + frame \<times> frame) list \<Rightarrow> frame list \<times> frame list
                  \<Rightarrow> frame list \<times> frame list" where
  "collect [] acc = acc"
| "collect (Inr (lc, meta) # rest) (lightcurves, metas) =
     collect rest (lightcurves @ [lc], metas @ [meta])"
| "collect (Inl e # rest) acc = collect rest acc"

text \<open>
  The batch call with \<open>save_path = None\<close> (nothing is written). \<open>ThreadPoolExecutor\<close>
  rejects a worker bound that is not positive.
\<close>

definition query_ztf_lightcurves ::
    "(string \<Rightarrow> error + locus option) \<Rightarrow> nat list \<Rightarrow> string list \<Rightarrow> int
       \<Rightarrow> error + nested_frame" where
  "query_ztf_lightcurves get_by_ztf_object_id arrival ztf_object_ids max_workers =
     (if max_workers \<le> 0 then Inl (ValueError ''max_workers must be greater than 0'')
      else
        let futures = map (query_ztf_lightcurve get_by_ztf_object_id) ztf_object_ids;
            (lightcurves, metas) = collect (as_completed arrival futures) ([], [])
        in and_then (pd_concat lightcurves)
           (\<lambda>lightcurves. and_then (pd_concat metas)
           (\<lambda>metas. and_then (lcs_to_nested_df lightcurves metas)
           (\<lambda>nested_df. Inr (reset_index_drop nested_df)))))"

section \<open>Chart renderer\<close>






text \<open>What one pass of the band loop hands to \<open>errorbar\<close> and \<open>scatter\<close>.\<close>

record band_plot =
  label :: cell
  detections_mjd :: "cell list"
  detections_magnitude :: "cell list"
  detections_magnitude_error :: "cell list"
  non_detections_mjd :: "cell list"
  non_detections_magnitude :: "cell list"



section \<open>Example inputs\<close>

text \<open>A record with two detections and one upper limit, and the table it normalizes to.\<close>

definition sample_locus :: locus where
  "sample_locus =
     \<lparr>lightcurve =
        \<lparr>index = [Num 0, Num 1, Num 2],
         columns =
           [(''alert_id'', [Str ''a'', Str ''b'', Str ''c'']),
            (''ant_mjd'', [Num 10, Num 12, Num 5]),
            (''ant_survey'', [Num 1, Num 1, Num 2]),
            (''ant_passband'', [Str ''g'', Str ''R'', Str ''g'']),
            (''ant_mag'', [Num 18, Num 19, NaN]),
            (''ant_magerr'', [Num 1, Num 1, NaN]),
            (''ant_maglim'', [NaN, NaN, Num 20])]\<rparr>,
      properties = [''ztf_object_id'' \<mapsto> Str ''ZTF21aaa'', ''num_alerts'' \<mapsto> Num 3],
      ra = Num 150, dec = Num 2\<rparr>"

definition sample_lc :: frame where
  "sample_lc =
     \<lparr>index = [Str ''ZTF21aaa'', Str ''ZTF21aaa'', Str ''ZTF21aaa''],
      columns =
        [(''mjd'', [Num 10, Num 12, Num 5]),
         (''non_detection'', [Bool False, Bool False, Bool True]),
         (''band'', [Str ''ztfg'', Str ''ztfr'', Str ''ztfg'']),
         (''magnitude'', [Num 18, Num 19, Num 20]),
         (''magnitude_error'', [Num 1, Num 1, NaN])]\<rparr>"

text \<open>A record whose only measurement has neither a magnitude nor a detection limit.\<close>

definition blank_locus :: locus where
  "blank_locus =
     \<lparr>lightcurve =
        \<lparr>index = [Num 0],
         columns =
           [(''ant_mjd'', [Num 10]),
            (''ant_survey'', [Num 1]),
            (''ant_passband'', [Str ''g'']),
            (''ant_mag'', [NaN]),
            (''ant_magerr'', [NaN]),
            (''ant_maglim'', [NaN])]\<rparr>,
      properties = [''ztf_object_id'' \<mapsto> Str ''ZTF21bbb''],
      ra = Num 150, dec = Num 2\<rparr>"

text \<open>A record with a survey tag and a band outside the mapped values, and the table it normalizes to.\<close>

definition mixed_locus :: locus where
  "mixed_locus =
     \<lparr>lightcurve =
        \<lparr>index = [Num 0, Num 1, Num 2, Num 3],
         columns =
           [(''ant_mjd'', [Num 10, Num 11, Num 12, Num 13]),
            (''ant_survey'', [Num 1, Num 2, Num 3, NaN]),
            (''ant_passband'', [Str ''g'', Str ''R'', Str ''z'', Str ''I'']),
            (''ant_mag'', [Num 18, NaN, Num 17, Num 16]),
            (''ant_magerr'', [Num 1, NaN, Num 1, Num 1]),
            (''ant_maglim'', [NaN, Num 20, NaN, NaN])]\<rparr>,
      properties = [''ztf_object_id'' \<mapsto> Str ''ZTF21ccc''],
      ra = Num 150, dec = Num 2\<rparr>"

definition mixed_lc :: frame where
  "mixed_lc =
     \<lparr>index = [Str ''ZTF21ccc'', Str ''ZTF21ccc'', Str ''ZTF21ccc'', Str ''ZTF21ccc''],
      columns =
        [(''mjd'', [Num 10, Num 11, Num 12, Num 13]),
         (''non_detection'', [Bool False, Bool True, Num 3, NaN]),
         (''band'', [Str ''ztfg'', Str ''ztfr'', Str ''z'', Str ''ztfi'']),
         (''magnitude'', [Num 18, Num 20, Num 17, Num 16]),
         (''magnitude_error'', [Num 1, NaN, Num 1, Num 1])]\<rparr>"

text \<open>The metadata table of the first record, and a record without an identifier property.\<close>

definition sample_meta :: frame where
  "sample_meta =
     \<lparr>index = [Str ''ZTF21aaa''],
      columns =
        [(''ztf_object_id'', [Str ''ZTF21aaa'']), (''num_mag_values'', [PyNone]),
         (''num_alerts'', [Num 3]), (''brightest_alert_magnitude'', [PyNone]),
         (''brightest_alert_observation_time'', [PyNone]),
         (''newest_alert_magnitude'', [PyNone]), (''newest_alert_observation_time'', [PyNone]),
         (''oldest_alert_magnitude'', [PyNone]), (''oldest_alert_observation_time'', [PyNone]),
         (''survey'', [PyNone]), (''ra'', [Num 150]), (''dec'', [Num 2])]\<rparr>"

definition anonymous_locus :: locus where
  "anonymous_locus =
     \<lparr>lightcurve = \<lparr>index = [], columns = []\<rparr>,
      properties = [''num_alerts'' \<mapsto> Num 3],
      ra = Num 150, dec = Num 2\<rparr>"

text \<open>A record with an identifier and no measurement at all.\<close>

definition empty_locus :: locus where
  "empty_locus =
     \<lparr>lightcurve =
        \<lparr>index = [],
         columns =
           [(''ant_mjd'', []), (''ant_survey'', []), (''ant_passband'', []),
            (''ant_mag'', []), (''ant_magerr'', []), (''ant_maglim'', [])]\<rparr>,
      properties = [''ztf_object_id'' \<mapsto> Str ''ZTF21ddd''],
      ra = Num 10, dec = Num 20\<rparr>"

text \<open>A remote service that knows three objects, times out on one identifier and returns \<open>None\<close> for every other.\<close>

definition archive :: "string \<Rightarrow> error + locus option" where
  "archive ztf_object_id =
     (if ztf_object_id = ''ZTF21aaa'' then Inr (Some sample_locus)
      else if ztf_object_id = ''ZTF21ccc'' then Inr (Some mixed_locus)
      else if ztf_object_id = ''ZTF21ddd'' then Inr (Some empty_locus)
      else if ztf_object_id = ''ZTF21zzz'' then Inl (ServiceError ''timeout'')
      else Inr None)"

text \<open>What the record without measurements normalizes to.\<close>

definition empty_lc :: frame where
  "empty_lc =
     \<lparr>index = [],
      columns = [(''mjd'', []), (''non_detection'', []), (''band'', []),
                 (''magnitude'', []), (''magnitude_error'', [])]\<rparr>"

definition empty_meta :: frame where
  "empty_meta =
     \<lparr>index = [Str ''ZTF21ddd''],
      columns =
        [(''ztf_object_id'', [Str ''ZTF21ddd'']), (''num_mag_values'', [PyNone]),
         (''num_alerts'', [PyNone]), (''brightest_alert_magnitude'', [PyNone]),
         (''brightest_alert_observation_time'', [PyNone]),
         (''newest_alert_magnitude'', [PyNone]), (''newest_alert_observation_time'', [PyNone]),
         (''oldest_alert_magnitude'', [PyNone]), (''oldest_alert_observation_time'', [PyNone]),
         (''survey'', [PyNone]), (''ra'', [Num 10]), (''dec'', [Num 20])]\<rparr>"

text \<open>The datasets assembled from the first record together with the record without measurements, and from the first record alone.\<close>

definition two_object_dataset :: nested_frame where
  "two_object_dataset =
     \<lparr>index = [Num 0, Num 1],
      columns =
        [(''ztf_object_id'', [Str ''ZTF21aaa'', Str ''ZTF21ddd'']),
         (''num_mag_values'', [PyNone, PyNone]),
         (''num_alerts'', [Num 3, PyNone]),
         (''brightest_alert_magnitude'', [PyNone, PyNone]),
         (''brightest_alert_observation_time'', [PyNone, PyNone]),
         (''newest_alert_magnitude'', [PyNone, PyNone]),
         (''newest_alert_observation_time'', [PyNone, PyNone]),
         (''oldest_alert_magnitude'', [PyNone, PyNone]),
         (''oldest_alert_observation_time'', [PyNone, PyNone]),
         (''survey'', [PyNone, PyNone]),
         (''ra'', [Num 150, Num 10]), (''dec'', [Num 2, Num 20])],
      nested =
        [(''lightcurve'',
          [Some [(''mjd'', [Num 10, Num 12, Num 5]),
                 (''non_detection'', [Bool False, Bool False, Bool True]),
                 (''band'', [Str ''ztfg'', Str ''ztfr'', Str ''ztfg'']),
                 (''magnitude'', [Num 18, Num 19, Num 20]),
                 (''magnitude_error'', [Num 1, Num 1, NaN])],
           None])]\<rparr>"

definition one_object_dataset :: nested_frame where
  "one_object_dataset =
     \<lparr>index = [Num 0],
      columns = columns sample_meta,
      nested = [(''lightcurve'', [Some (columns sample_lc)])]\<rparr>"





section \<open>Normal forms of the normalizer\<close>

lemmas pandas_defs = and_then_def getitem_def getitem_list_def fillna_def setitem_def
  drop_columns_def rename_def replace_def set_index_all_def isna_def

lemma sample_lc_eq: "format_antares_lc sample_locus = Inr sample_lc"
  by (simp add: format_antares_lc_def sample_locus_def sample_lc_def pandas_defs)

lemma wf_sample: "wf_frame (lightcurve sample_locus)"
  by (simp add: wf_frame_def sample_locus_def)

lemma getitem_list_six:
  "getitem_list df [a, b, c, d, e, f] = Inr lc \<longleftrightarrow>
     (\<exists>ca cb cc cd ce cf. map_of (columns df) a = Some ca \<and> map_of (columns df) b = Some cb \<and>
        map_of (columns df) c = Some cc \<and> map_of (columns df) d = Some cd \<and>
        map_of (columns df) e = Some ce \<and> map_of (columns df) f = Some cf \<and>
        lc = \<lparr>index = index df, columns = [(a, ca), (b, cb), (c, cc), (d, cd), (e, ce), (f, cf)]\<rparr>)"
  by (cases "map_of (columns df) a"; cases "map_of (columns df) b"; cases "map_of (columns df) c";
      cases "map_of (columns df) d"; cases "map_of (columns df) e"; cases "map_of (columns df) f")
     (auto simp: getitem_list_def)

lemma format_antares_lc_Inr:
  assumes "format_antares_lc l = Inr out"
  shows "\<exists>mjd survey band mag magerr maglim oid.
     map_of (columns (lightcurve l)) ''ant_mjd'' = Some mjd \<and>
     map_of (columns (lightcurve l)) ''ant_survey'' = Some survey \<and>
     map_of (columns (lightcurve l)) ''ant_passband'' = Some band \<and>
     map_of (columns (lightcurve l)) ''ant_mag'' = Some mag \<and>
     map_of (columns (lightcurve l)) ''ant_magerr'' = Some magerr \<and>
     map_of (columns (lightcurve l)) ''ant_maglim'' = Some maglim \<and>
     properties l ''ztf_object_id'' = Some oid \<and>
     out = \<lparr>index = replicate (length (index (lightcurve l))) oid,
            columns = [(''mjd'', mjd),
              (''non_detection'', replace survey [Num 1, Num 2] [Bool False, Bool True]),
              (''band'', replace band
                    [Str ''g'', Str ''R'', Str ''r'', Str ''G'', Str ''i'', Str ''I'']
                    [Str ''ztfg'', Str ''ztfr'', Str ''ztfr'', Str ''ztfg'', Str ''ztfi'', Str ''ztfi'']),
              (''magnitude'', fillna mag maglim),
              (''magnitude_error'', magerr)]\<rparr>"
proof -
  from assms obtain lc where lc: "getitem_list (lightcurve l)
        [''ant_mjd'', ''ant_survey'', ''ant_passband'', ''ant_mag'', ''ant_magerr'', ''ant_maglim''] = Inr lc"
    by (auto simp: format_antares_lc_def and_then_def split: sum.splits)
  from lc[unfolded getitem_list_six] obtain ca cb cc cd ce cf where
    c: "map_of (columns (lightcurve l)) ''ant_mjd'' = Some ca"
       "map_of (columns (lightcurve l)) ''ant_survey'' = Some cb"
       "map_of (columns (lightcurve l)) ''ant_passband'' = Some cc"
       "map_of (columns (lightcurve l)) ''ant_mag'' = Some cd"
       "map_of (columns (lightcurve l)) ''ant_magerr'' = Some ce"
       "map_of (columns (lightcurve l)) ''ant_maglim'' = Some cf"
    and lceq: "lc = \<lparr>index = index (lightcurve l), columns = [(''ant_mjd'', ca), (''ant_survey'', cb),
        (''ant_passband'', cc), (''ant_mag'', cd), (''ant_magerr'', ce), (''ant_maglim'', cf)]\<rparr>"
    by blast
  from assms lc lceq show ?thesis using c
    by (auto simp: format_antares_lc_def and_then_def getitem_def setitem_def drop_columns_def
        rename_def set_index_all_def Let_def split: option.splits)
qed

lemma format_antares_lc_succeeds:
  assumes "set [''ant_mjd'', ''ant_survey'', ''ant_passband'', ''ant_mag'', ''ant_magerr'',
                ''ant_maglim''] \<subseteq> set (map fst (columns (lightcurve l)))"
    and "''ztf_object_id'' \<in> dom (properties l)"
  shows "\<exists>out. format_antares_lc l = Inr out"
proof -
  have "\<forall>k \<in> set [''ant_mjd'', ''ant_survey'', ''ant_passband'', ''ant_mag'', ''ant_magerr'',
                    ''ant_maglim'']. map_of (columns (lightcurve l)) k \<noteq> None"
    using assms(1) by (simp only: map_of_eq_None_iff set_map) blast
  then obtain ca cb cc cd ce cf where
    c: "map_of (columns (lightcurve l)) ''ant_mjd'' = Some ca"
       "map_of (columns (lightcurve l)) ''ant_survey'' = Some cb"
       "map_of (columns (lightcurve l)) ''ant_passband'' = Some cc"
       "map_of (columns (lightcurve l)) ''ant_mag'' = Some cd"
       "map_of (columns (lightcurve l)) ''ant_magerr'' = Some ce"
       "map_of (columns (lightcurve l)) ''ant_maglim'' = Some cf"
    by auto
  from assms(2) obtain oid where oid: "properties l ''ztf_object_id'' = Some oid"
    by auto
  have "getitem_list (lightcurve l)
        [''ant_mjd'', ''ant_survey'', ''ant_passband'', ''ant_mag'', ''ant_magerr'', ''ant_maglim'']
      = Inr \<lparr>index = index (lightcurve l), columns = [(''ant_mjd'', ca), (''ant_survey'', cb),
        (''ant_passband'', cc), (''ant_mag'', cd), (''ant_magerr'', ce), (''ant_maglim'', cf)]\<rparr>"
    unfolding getitem_list_six using c by simp
  then show ?thesis
    using oid
    by (simp add: format_antares_lc_def and_then_def getitem_def setitem_def drop_columns_def
        rename_def set_index_all_def Let_def)
qed

lemma wf_column_length:
  "wf_frame df \<Longrightarrow> map_of (columns df) k = Some c \<Longrightarrow> length c = length (index df)"
  by (auto simp: wf_frame_def list_all_iff dest!: map_of_SomeD)

lemma fillna_nth:
  "length s = length other \<Longrightarrow> i < length s \<Longrightarrow>
     fillna s other ! i = (if isna (s ! i) then other ! i else s ! i)"
  by (simp add: fillna_def)

lemma length_fillna: "length s = length other \<Longrightarrow> length (fillna s other) = length s"
  by (simp add: fillna_def)

section \<open>Claims about the normalizer\<close>

text \<open>
  Claim C2. For every well-formed raw record that has the six measurement columns and
  a \<open>ztf_object_id\<close> property, \<open>format_antares_lc\<close> returns a table; the table has no
  \<open>ant_maglim\<close> column, it has one row per measurement, and on every row whose raw
  \<open>ant_mag\<close> is missing the \<open>magnitude\<close> is exactly the raw \<open>ant_maglim\<close> of that row.
\<close>

theorem fallback_magnitude:
  assumes "wf_frame (lightcurve l)"
    and "set [''ant_mjd'', ''ant_survey'', ''ant_passband'', ''ant_mag'', ''ant_magerr'',
              ''ant_maglim''] \<subseteq> set (map fst (columns (lightcurve l)))"
    and "''ztf_object_id'' \<in> dom (properties l)"
  shows "\<exists>out mag maglim m.
            format_antares_lc l = Inr out \<and>
            ''ant_maglim'' \<notin> set (map fst (columns out)) \<and>
            getitem (lightcurve l) ''ant_mag'' = Inr mag \<and>
            getitem (lightcurve l) ''ant_maglim'' = Inr maglim \<and>
            getitem out ''magnitude'' = Inr m \<and>
            length mag = length (index (lightcurve l)) \<and>
            length maglim = length (index (lightcurve l)) \<and>
            length m = length (index (lightcurve l)) \<and>
            length (index out) = length (index (lightcurve l)) \<and>
            (\<forall>i < length m. isna (mag ! i) \<longrightarrow> m ! i = maglim ! i)"
proof -
  from format_antares_lc_succeeds[OF assms(2,3)] obtain out where
    ok: "format_antares_lc l = Inr out" by blast
  from format_antares_lc_Inr[OF ok] obtain mjd survey band mag magerr maglim oid where
    mag: "map_of (columns (lightcurve l)) ''ant_mag'' = Some mag" and
    lim: "map_of (columns (lightcurve l)) ''ant_maglim'' = Some maglim" and
    out: "out = \<lparr>index = replicate (length (index (lightcurve l))) oid,
            columns = [(''mjd'', mjd),
              (''non_detection'', replace survey [Num 1, Num 2] [Bool False, Bool True]),
              (''band'', replace band
                    [Str ''g'', Str ''R'', Str ''r'', Str ''G'', Str ''i'', Str ''I'']
                    [Str ''ztfg'', Str ''ztfr'', Str ''ztfr'', Str ''ztfg'', Str ''ztfi'', Str ''ztfi'']),
              (''magnitude'', fillna mag maglim),
              (''magnitude_error'', magerr)]\<rparr>"
    by blast
  let ?m = "fillna mag maglim"
  have len: "length mag = length (index (lightcurve l))" "length maglim = length (index (lightcurve l))"
    using wf_column_length[OF assms(1)] mag lim by auto
  have absent: "''ant_maglim'' \<notin> set (map fst (columns out))"
    by (simp add: out)
  have g: "getitem (lightcurve l) ''ant_mag'' = Inr mag"
          "getitem (lightcurve l) ''ant_maglim'' = Inr maglim"
          "getitem out ''magnitude'' = Inr ?m"
    using mag lim by (simp_all add: getitem_def out)
  have fill: "\<forall>i < length ?m. isna (mag ! i) \<longrightarrow> ?m ! i = maglim ! i"
    using len by (simp add: fillna_nth length_fillna)
  have lm: "length ?m = length (index (lightcurve l))"
    using len by (simp add: length_fillna)
  have li: "length (index out) = length (index (lightcurve l))"
    by (simp add: out)
  show ?thesis
    by (rule exI[of _ out], rule exI[of _ mag], rule exI[of _ maglim], rule exI[of _ ?m])
       (intro conjI ok absent g len lm li fill)
qed

theorem fallback_magnitude_witness:
  "wf_frame (lightcurve sample_locus) \<and>
   set [''ant_mjd'', ''ant_survey'', ''ant_passband'', ''ant_mag'', ''ant_magerr'', ''ant_maglim'']
     \<subseteq> set (map fst (columns (lightcurve sample_locus))) \<and>
   ''ztf_object_id'' \<in> dom (properties sample_locus) \<and>
   format_antares_lc sample_locus = Inr sample_lc \<and>
   ''ant_maglim'' \<notin> set (map fst (columns sample_lc)) \<and>
   getitem (lightcurve sample_locus) ''ant_mag'' = Inr [Num 18, Num 19, NaN] \<and>
   getitem (lightcurve sample_locus) ''ant_maglim'' = Inr [NaN, NaN, Num 20] \<and>
   getitem sample_lc ''magnitude'' = Inr [Num 18, Num 19, Num 20]"
proof -
  have h1: "wf_frame (lightcurve sample_locus)" by (rule wf_sample)
  have h2: "set [''ant_mjd'', ''ant_survey'', ''ant_passband'', ''ant_mag'', ''ant_magerr'',
                 ''ant_maglim''] \<subseteq> set (map fst (columns (lightcurve sample_locus)))"
    by (simp add: sample_locus_def)
  have h3: "''ztf_object_id'' \<in> dom (properties sample_locus)"
    by (simp add: sample_locus_def)
  have "getitem (lightcurve sample_locus) ''ant_mag'' = Inr [Num 18, Num 19, NaN]"
       "getitem (lightcurve sample_locus) ''ant_maglim'' = Inr [NaN, NaN, Num 20]"
       "getitem sample_lc ''magnitude'' = Inr [Num 18, Num 19, Num 20]"
       "''ant_maglim'' \<notin> set (map fst (columns sample_lc))"
    by (simp_all add: getitem_def sample_locus_def sample_lc_def)
  then show ?thesis
    using h1 h2 h3 sample_lc_eq fallback_magnitude[OF h1 h2 h3] by simp
qed

text \<open>
  Claim C3, as stated, fails: a measurement whose \<open>ant_mag\<close> and \<open>ant_maglim\<close> are
  both missing is accepted, and its normalized magnitude is missing.
\<close>

theorem absent_magnitude_counterexample:
  "format_antares_lc blank_locus =
     Inr \<lparr>index = [Str ''ZTF21bbb''],
          columns = [(''mjd'', [Num 10]), (''non_detection'', [Bool False]),
                     (''band'', [Str ''ztfg'']), (''magnitude'', [NaN]),
                     (''magnitude_error'', [NaN])]\<rparr> \<and>
   isna NaN"
  by (simp add: format_antares_lc_def blank_locus_def pandas_defs)

text \<open>
  Claim C3, amended. In the table returned for a well-formed raw record, the magnitude
  of a row is missing exactly when both the raw \<open>ant_mag\<close> and the raw \<open>ant_maglim\<close>
  of that row are missing; so when every measurement has at least one of the two, no
  returned row has a missing magnitude.
\<close>

theorem magnitude_absent_iff:
  assumes "wf_frame (lightcurve l)" and "format_antares_lc l = Inr out"
  shows "\<exists>mag maglim m.
            getitem (lightcurve l) ''ant_mag'' = Inr mag \<and>
            getitem (lightcurve l) ''ant_maglim'' = Inr maglim \<and>
            getitem out ''magnitude'' = Inr m \<and>
            length mag = length m \<and> length maglim = length m \<and>
            length (index out) = length m \<and>
            (\<forall>i < length m. isna (m ! i) \<longleftrightarrow> isna (mag ! i) \<and> isna (maglim ! i)) \<and>
            ((\<forall>i < length m. \<not> isna (mag ! i) \<or> \<not> isna (maglim ! i)) \<longrightarrow>
               (\<forall>x \<in> set m. \<not> isna x))"
proof -
  from format_antares_lc_Inr[OF assms(2)] obtain mjd survey band mag magerr maglim oid where
    mag: "map_of (columns (lightcurve l)) ''ant_mag'' = Some mag" and
    lim: "map_of (columns (lightcurve l)) ''ant_maglim'' = Some maglim" and
    out: "out = \<lparr>index = replicate (length (index (lightcurve l))) oid,
            columns = [(''mjd'', mjd),
              (''non_detection'', replace survey [Num 1, Num 2] [Bool False, Bool True]),
              (''band'', replace band
                    [Str ''g'', Str ''R'', Str ''r'', Str ''G'', Str ''i'', Str ''I'']
                    [Str ''ztfg'', Str ''ztfr'', Str ''ztfr'', Str ''ztfg'', Str ''ztfi'', Str ''ztfi'']),
              (''magnitude'', fillna mag maglim),
              (''magnitude_error'', magerr)]\<rparr>"
    by blast
  let ?m = "fillna mag maglim"
  have len: "length mag = length (index (lightcurve l))" "length maglim = length (index (lightcurve l))"
    using wf_column_length[OF assms(1)] mag lim by auto
  have lm: "length ?m = length (index (lightcurve l))"
    using len by (simp add: length_fillna)
  have iff: "\<forall>i < length ?m. isna (?m ! i) \<longleftrightarrow> isna (mag ! i) \<and> isna (maglim ! i)"
    using len by (simp add: fillna_nth length_fillna)
  have all: "(\<forall>i < length ?m. \<not> isna (mag ! i) \<or> \<not> isna (maglim ! i)) \<longrightarrow>
               (\<forall>x \<in> set ?m. \<not> isna x)"
    using iff by (auto simp: in_set_conv_nth)
  have g: "getitem (lightcurve l) ''ant_mag'' = Inr mag"
          "getitem (lightcurve l) ''ant_maglim'' = Inr maglim"
          "getitem out ''magnitude'' = Inr ?m"
    using mag lim by (simp_all add: getitem_def out)
  have li: "length (index out) = length ?m"
    using lm by (simp add: out)
  have l2: "length mag = length ?m" "length maglim = length ?m"
    using len lm by simp_all
  show ?thesis
    by (rule exI[of _ mag], rule exI[of _ maglim], rule exI[of _ ?m])
       (intro conjI g li l2 iff all)
qed

theorem magnitude_absent_iff_witness:
  "wf_frame (lightcurve sample_locus) \<and> format_antares_lc sample_locus = Inr sample_lc \<and>
   getitem (lightcurve sample_locus) ''ant_mag'' = Inr [Num 18, Num 19, NaN] \<and>
   getitem (lightcurve sample_locus) ''ant_maglim'' = Inr [NaN, NaN, Num 20] \<and>
   getitem sample_lc ''magnitude'' = Inr [Num 18, Num 19, Num 20] \<and>
   \<not> isna (Num 18) \<and> \<not> isna (Num 19) \<and> \<not> isna (Num 20)"
proof -
  have h1: "wf_frame (lightcurve sample_locus)" by (rule wf_sample)
  have h2: "format_antares_lc sample_locus = Inr sample_lc" by (rule sample_lc_eq)
  have "getitem (lightcurve sample_locus) ''ant_mag'' = Inr [Num 18, Num 19, NaN]"
       "getitem (lightcurve sample_locus) ''ant_maglim'' = Inr [NaN, NaN, Num 20]"
       "getitem sample_lc ''magnitude'' = Inr [Num 18, Num 19, Num 20]"
    by (simp_all add: getitem_def sample_locus_def sample_lc_def)
  then show ?thesis using h1 h2 magnitude_absent_iff[OF h1 h2] by (simp add: isna_def)
qed

lemma length_replace: "length (replace s a b) = length s"
  by (simp add: replace_def)

lemma replace_survey:
  "replace s [Num 1, Num 2] [Bool False, Bool True] =
     map (\<lambda>v. if py_eq v (Num 1) then Bool False else if py_eq v (Num 2) then Bool True else v) s"
  by (simp add: replace_def)

lemma replace_band:
  "replace s [Str ''g'', Str ''R'', Str ''r'', Str ''G'', Str ''i'', Str ''I'']
             [Str ''ztfg'', Str ''ztfr'', Str ''ztfr'', Str ''ztfg'', Str ''ztfi'', Str ''ztfi''] =
     map (\<lambda>v. if v = Str ''g'' \<or> v = Str ''G'' then Str ''ztfg''
               else if v = Str ''r'' \<or> v = Str ''R'' then Str ''ztfr''
               else if v = Str ''i'' \<or> v = Str ''I'' then Str ''ztfi'' else v) s"
proof -
  have eq: "py_eq v (Str t) \<longleftrightarrow> v = Str t" for v t
    by (cases v) auto
  show ?thesis
    by (simp add: replace_def eq)
qed

text \<open>
  Claim C7. In the table returned for a well-formed raw record, row by row: survey tag
  1 becomes \<open>non_detection = False\<close> and 2 becomes \<open>True\<close>; a tag that Python does not
  compare equal to 1 or 2 is kept; bands g, G become ztfg, bands r, R become ztfr,
  bands i, I become ztfi, and any other band is kept. Hence when every raw band is one
  of the six letters, every output band is one of ztfg, ztfr, ztfi.
\<close>

theorem value_mapping:
  assumes "wf_frame (lightcurve l)" and "format_antares_lc l = Inr out"
  shows "\<exists>survey band nd b.
           getitem (lightcurve l) ''ant_survey'' = Inr survey \<and>
           getitem (lightcurve l) ''ant_passband'' = Inr band \<and>
           getitem out ''non_detection'' = Inr nd \<and>
           getitem out ''band'' = Inr b \<and>
           length nd = length survey \<and> length b = length band \<and>
           length survey = length (index out) \<and> length band = length (index out) \<and>
           (\<forall>i < length survey.
              (survey ! i = Num 1 \<longrightarrow> nd ! i = Bool False) \<and>
              (survey ! i = Num 2 \<longrightarrow> nd ! i = Bool True) \<and>
              (\<not> py_eq (survey ! i) (Num 1) \<and> \<not> py_eq (survey ! i) (Num 2) \<longrightarrow> nd ! i = survey ! i)) \<and>
           (\<forall>i < length band.
              (band ! i \<in> {Str ''g'', Str ''G''} \<longrightarrow> b ! i = Str ''ztfg'') \<and>
              (band ! i \<in> {Str ''r'', Str ''R''} \<longrightarrow> b ! i = Str ''ztfr'') \<and>
              (band ! i \<in> {Str ''i'', Str ''I''} \<longrightarrow> b ! i = Str ''ztfi'') \<and>
              (band ! i \<notin> {Str ''g'', Str ''G'', Str ''r'', Str ''R'', Str ''i'', Str ''I''}
                 \<longrightarrow> b ! i = band ! i)) \<and>
           (set band \<subseteq> {Str ''g'', Str ''G'', Str ''r'', Str ''R'', Str ''i'', Str ''I''}
              \<longrightarrow> set b \<subseteq> {Str ''ztfg'', Str ''ztfr'', Str ''ztfi''})"
proof -
  from format_antares_lc_Inr[OF assms(2)] obtain mjd survey band mag magerr maglim oid where
    sv: "map_of (columns (lightcurve l)) ''ant_survey'' = Some survey" and
    bd: "map_of (columns (lightcurve l)) ''ant_passband'' = Some band" and
    out: "out = \<lparr>index = replicate (length (index (lightcurve l))) oid,
            columns = [(''mjd'', mjd),
              (''non_detection'', replace survey [Num 1, Num 2] [Bool False, Bool True]),
              (''band'', replace band
                    [Str ''g'', Str ''R'', Str ''r'', Str ''G'', Str ''i'', Str ''I'']
                    [Str ''ztfg'', Str ''ztfr'', Str ''ztfr'', Str ''ztfg'', Str ''ztfi'', Str ''ztfi'']),
              (''magnitude'', fillna mag maglim),
              (''magnitude_error'', magerr)]\<rparr>"
    by blast
  let ?nd = "replace survey [Num 1, Num 2] [Bool False, Bool True]"
  let ?b = "replace band
                    [Str ''g'', Str ''R'', Str ''r'', Str ''G'', Str ''i'', Str ''I'']
                    [Str ''ztfg'', Str ''ztfr'', Str ''ztfr'', Str ''ztfg'', Str ''ztfi'', Str ''ztfi'']"
  have len: "length survey = length (index out)" "length band = length (index out)"
    using wf_column_length[OF assms(1)] sv bd by (auto simp: out)
  have g: "getitem (lightcurve l) ''ant_survey'' = Inr survey"
          "getitem (lightcurve l) ''ant_passband'' = Inr band"
          "getitem out ''non_detection'' = Inr ?nd" "getitem out ''band'' = Inr ?b"
    using sv bd by (simp_all add: getitem_def out)
  have l2: "length ?nd = length survey" "length ?b = length band"
    by (simp_all add: length_replace)
  have s: "\<forall>i < length survey.
              (survey ! i = Num 1 \<longrightarrow> ?nd ! i = Bool False) \<and>
              (survey ! i = Num 2 \<longrightarrow> ?nd ! i = Bool True) \<and>
              (\<not> py_eq (survey ! i) (Num 1) \<and> \<not> py_eq (survey ! i) (Num 2) \<longrightarrow> ?nd ! i = survey ! i)"
    by (simp add: replace_survey)
  define f where "f = (\<lambda>v. if v = Str ''g'' \<or> v = Str ''G'' then Str ''ztfg''
               else if v = Str ''r'' \<or> v = Str ''R'' then Str ''ztfr''
               else if v = Str ''i'' \<or> v = Str ''I'' then Str ''ztfi'' else v)"
  have bf: "?b = map f band"
    unfolding f_def by (rule replace_band)
  have f1: "(v \<in> {Str ''g'', Str ''G''} \<longrightarrow> f v = Str ''ztfg'') \<and>
            (v \<in> {Str ''r'', Str ''R''} \<longrightarrow> f v = Str ''ztfr'') \<and>
            (v \<in> {Str ''i'', Str ''I''} \<longrightarrow> f v = Str ''ztfi'') \<and>
            (v \<notin> {Str ''g'', Str ''G'', Str ''r'', Str ''R'', Str ''i'', Str ''I''}
                 \<longrightarrow> f v = v)" for v
    by (simp add: f_def)
  have f2: "f v \<in> {Str ''ztfg'', Str ''ztfr'', Str ''ztfi''}"
    if "v \<in> {Str ''g'', Str ''G'', Str ''r'', Str ''R'', Str ''i'', Str ''I''}" for v
    using that by (elim insertE emptyE; simp add: f_def)
  have b: "\<forall>i < length band.
              (band ! i \<in> {Str ''g'', Str ''G''} \<longrightarrow> ?b ! i = Str ''ztfg'') \<and>
              (band ! i \<in> {Str ''r'', Str ''R''} \<longrightarrow> ?b ! i = Str ''ztfr'') \<and>
              (band ! i \<in> {Str ''i'', Str ''I''} \<longrightarrow> ?b ! i = Str ''ztfi'') \<and>
              (band ! i \<notin> {Str ''g'', Str ''G'', Str ''r'', Str ''R'', Str ''i'', Str ''I''}
                 \<longrightarrow> ?b ! i = band ! i)"
  proof (intro allI impI)
    fix i assume "i < length band"
    then have "?b ! i = f (band ! i)"
      by (simp add: bf)
    then show "(band ! i \<in> {Str ''g'', Str ''G''} \<longrightarrow> ?b ! i = Str ''ztfg'') \<and>
              (band ! i \<in> {Str ''r'', Str ''R''} \<longrightarrow> ?b ! i = Str ''ztfr'') \<and>
              (band ! i \<in> {Str ''i'', Str ''I''} \<longrightarrow> ?b ! i = Str ''ztfi'') \<and>
              (band ! i \<notin> {Str ''g'', Str ''G'', Str ''r'', Str ''R'', Str ''i'', Str ''I''}
                 \<longrightarrow> ?b ! i = band ! i)"
      using f1[of "band ! i"] by (simp only:)
  qed
  have v: "set band \<subseteq> {Str ''g'', Str ''G'', Str ''r'', Str ''R'', Str ''i'', Str ''I''}
              \<longrightarrow> set ?b \<subseteq> {Str ''ztfg'', Str ''ztfr'', Str ''ztfi''}"
  proof
    assume sub: "set band \<subseteq> {Str ''g'', Str ''G'', Str ''r'', Str ''R'', Str ''i'', Str ''I''}"
    have "f x \<in> {Str ''ztfg'', Str ''ztfr'', Str ''ztfi''}" if "x \<in> set band" for x
      using sub that by (intro f2) (rule subsetD)
    then show "set ?b \<subseteq> {Str ''ztfg'', Str ''ztfr'', Str ''ztfi''}"
      unfolding bf by (simp only: set_map image_subset_iff) blast
  qed
  show ?thesis
    by (rule exI[of _ survey], rule exI[of _ band], rule exI[of _ ?nd], rule exI[of _ ?b])
       (intro conjI g l2 len s b v)
qed

theorem value_mapping_witness:
  "wf_frame (lightcurve mixed_locus) \<and> format_antares_lc mixed_locus = Inr mixed_lc \<and>
   getitem (lightcurve mixed_locus) ''ant_survey'' = Inr [Num 1, Num 2, Num 3, NaN] \<and>
   getitem (lightcurve mixed_locus) ''ant_passband'' = Inr [Str ''g'', Str ''R'', Str ''z'', Str ''I''] \<and>
   getitem mixed_lc ''non_detection'' = Inr [Bool False, Bool True, Num 3, NaN] \<and>
   getitem mixed_lc ''band'' = Inr [Str ''ztfg'', Str ''ztfr'', Str ''z'', Str ''ztfi'']"
proof -
  have h1: "wf_frame (lightcurve mixed_locus)"
    by (simp add: wf_frame_def mixed_locus_def)
  have h2: "format_antares_lc mixed_locus = Inr mixed_lc"
    by (simp add: format_antares_lc_def mixed_locus_def mixed_lc_def pandas_defs)
  have "getitem (lightcurve mixed_locus) ''ant_survey'' = Inr [Num 1, Num 2, Num 3, NaN]"
       "getitem (lightcurve mixed_locus) ''ant_passband'' = Inr [Str ''g'', Str ''R'', Str ''z'', Str ''I'']"
       "getitem mixed_lc ''non_detection'' = Inr [Bool False, Bool True, Num 3, NaN]"
       "getitem mixed_lc ''band'' = Inr [Str ''ztfg'', Str ''ztfr'', Str ''z'', Str ''ztfi'']"
    by (simp_all add: getitem_def mixed_locus_def mixed_lc_def)
  then show ?thesis using h1 h2 value_mapping[OF h1 h2] by simp
qed

lemma format_antares_meta_eq:
  "format_antares_meta l =
     (case properties l ''ztf_object_id'' of
        None \<Rightarrow> Inl (KeyError ''ztf_object_id'')
      | Some oid \<Rightarrow>
          Inr \<lparr>index = [oid],
               columns = map (\<lambda>key. (key, [get_or_none (properties l) key])) meta_keys
                         @ [(''ra'', [ra l]), (''dec'', [dec l])]\<rparr>)"
  by (simp add: format_antares_meta_def setitem_def set_index_all_def meta_keys_def
        split: option.splits)

lemma sample_meta_eq: "format_antares_meta sample_locus = Inr sample_meta"
  by (simp add: format_antares_meta_eq sample_locus_def sample_meta_def meta_keys_def
        get_or_none_def)

lemma getitem_meta_key:
  "key \<in> set meta_keys \<Longrightarrow>
     getitem \<lparr>index = i, columns = map (\<lambda>key. (key, [get_or_none d key])) meta_keys @ extra\<rparr> key
       = Inr [get_or_none d key]"
  by (simp add: getitem_def map_of_map_restrict restrict_map_def map_add_def)

text \<open>
  Claim C5, as stated, fails: a record with a property mapping and coordinates but no
  \<open>ztf_object_id\<close> property makes \<open>format_antares_meta\<close> raise \<open>KeyError\<close>.
\<close>

theorem metadata_missing_id_counterexample:
  "format_antares_meta anonymous_locus = Inl (KeyError ''ztf_object_id'')"
  by (simp add: format_antares_meta_eq anonymous_locus_def)

text \<open>
  Claim C5, amended. \<open>format_antares_meta\<close> raises \<open>KeyError\<close> when the property
  mapping has no \<open>ztf_object_id\<close>. Otherwise it returns a one-row table, labelled with
  the identifier, whose columns are the ten named properties followed by \<open>ra\<close> and
  \<open>dec\<close>; each named property missing from the mapping is \<open>None\<close> there, each present
  one is its value.
\<close>

theorem metadata_defaults:
  "(case properties l ''ztf_object_id'' of
      None \<Rightarrow> format_antares_meta l = Inl (KeyError ''ztf_object_id'')
    | Some oid \<Rightarrow>
        (\<exists>meta. format_antares_meta l = Inr meta \<and>
           index meta = [oid] \<and>
           map fst (columns meta) = meta_keys @ [''ra'', ''dec''] \<and>
           (\<forall>key \<in> set meta_keys.
              getitem meta key = Inr [case properties l key of None \<Rightarrow> PyNone | Some v \<Rightarrow> v]) \<and>
           getitem meta ''ra'' = Inr [ra l] \<and>
           getitem meta ''dec'' = Inr [dec l]))"
proof (cases "properties l ''ztf_object_id''")
  case None
  then show ?thesis by (simp add: format_antares_meta_eq)
next
  case (Some oid)
  let ?meta = "\<lparr>index = [oid],
               columns = map (\<lambda>key. (key, [get_or_none (properties l) key])) meta_keys
                         @ [(''ra'', [ra l]), (''dec'', [dec l])]\<rparr>"
  have m: "format_antares_meta l = Inr ?meta"
    using Some by (simp add: format_antares_meta_eq)
  have names: "map fst (columns ?meta) = meta_keys @ [''ra'', ''dec'']"
    by (simp add: comp_def)
  have keys: "\<forall>key \<in> set meta_keys.
      getitem ?meta key = Inr [case properties l key of None \<Rightarrow> PyNone | Some v \<Rightarrow> v]"
    using getitem_meta_key[of _ "[oid]" "properties l" "[(''ra'', [ra l]), (''dec'', [dec l])]"]
    by (simp only: get_or_none_def) blast
  have coords: "getitem ?meta ''ra'' = Inr [ra l]" "getitem ?meta ''dec'' = Inr [dec l]"
    by (simp_all add: getitem_def meta_keys_def)
  have "\<exists>meta. format_antares_meta l = Inr meta \<and>
           index meta = [oid] \<and>
           map fst (columns meta) = meta_keys @ [''ra'', ''dec''] \<and>
           (\<forall>key \<in> set meta_keys.
              getitem meta key = Inr [case properties l key of None \<Rightarrow> PyNone | Some v \<Rightarrow> v]) \<and>
           getitem meta ''ra'' = Inr [ra l] \<and>
           getitem meta ''dec'' = Inr [dec l]"
    by (rule exI[of _ ?meta]) (intro conjI m names keys coords, simp)
  then show ?thesis using Some by simp
qed

theorem metadata_defaults_witness:
  "properties sample_locus ''ztf_object_id'' = Some (Str ''ZTF21aaa'') \<and>
   properties sample_locus ''survey'' = None \<and>
   format_antares_meta sample_locus = Inr sample_meta \<and>
   getitem sample_meta ''survey'' = Inr [PyNone] \<and>
   properties anonymous_locus ''ztf_object_id'' = None \<and>
   format_antares_meta anonymous_locus = Inl (KeyError ''ztf_object_id'')"
proof -
  have p: "properties sample_locus ''ztf_object_id'' = Some (Str ''ZTF21aaa'')"
          "properties sample_locus ''survey'' = None"
    by (simp_all add: sample_locus_def)
  have q: "properties anonymous_locus ''ztf_object_id'' = None"
    by (simp add: anonymous_locus_def)
  have s: "getitem sample_meta ''survey'' = Inr [PyNone]"
    by (simp add: getitem_def sample_meta_def)
  show ?thesis
    using p q s sample_meta_eq metadata_defaults[of anonymous_locus] by simp
qed

text \<open>
  Claim C8. When both normalizers succeed on a raw record, the record has a
  \<open>ztf_object_id\<close> property, every row label of the lightcurve table is that value
  (one label per raw measurement), and the single row label of the metadata table is
  that value.
\<close>

theorem identifier_propagation:
  assumes "format_antares_lc l = Inr lc" and "format_antares_meta l = Inr meta"
  shows "\<exists>oid. properties l ''ztf_object_id'' = Some oid \<and>
           index lc = replicate (length (index (lightcurve l))) oid \<and>
           (\<forall>x \<in> set (index lc). x = oid) \<and>
           index meta = [oid]"
proof -
  from format_antares_lc_Inr[OF assms(1)] obtain oid where
    oid: "properties l ''ztf_object_id'' = Some oid" and
    lc: "index lc = replicate (length (index (lightcurve l))) oid"
    by force
  have "index meta = [oid]"
    using assms(2) oid by (auto simp: format_antares_meta_eq)
  then show ?thesis using oid lc by simp
qed

theorem identifier_propagation_witness:
  "format_antares_lc sample_locus = Inr sample_lc \<and>
   format_antares_meta sample_locus = Inr sample_meta \<and>
   properties sample_locus ''ztf_object_id'' = Some (Str ''ZTF21aaa'') \<and>
   index sample_lc = [Str ''ZTF21aaa'', Str ''ZTF21aaa'', Str ''ZTF21aaa''] \<and>
   index sample_meta = [Str ''ZTF21aaa'']"
proof -
  have "properties sample_locus ''ztf_object_id'' = Some (Str ''ZTF21aaa'')"
    by (simp add: sample_locus_def)
  then show ?thesis
    using identifier_propagation[OF sample_lc_eq sample_meta_eq]
    by (simp add: sample_lc_eq sample_meta_eq sample_lc_def sample_meta_def)
qed

section \<open>The batch call in normal form\<close>

lemma collect_eq:
  "collect rs (a, b) =
     (a @ map (\<lambda>r. fst (projr r)) (filter (\<lambda>r. \<not> isl r) rs),
      b @ map (\<lambda>r. snd (projr r)) (filter (\<lambda>r. \<not> isl r) rs))"
  by (induction rs "(a, b)" arbitrary: a b rule: collect.induct) simp_all

lemma mset_as_completed:
  assumes "arrival_order arrival futures"
  shows "mset (as_completed arrival futures) = mset futures"
proof -
  have "mset (map (\<lambda>i. futures ! i) arrival) = image_mset (\<lambda>i. futures ! i) (mset arrival)"
    by simp
  also have "\<dots> = image_mset (\<lambda>i. futures ! i) (mset [0..<length futures])"
    using assms by (simp add: arrival_order_def)
  also have "\<dots> = mset (map (\<lambda>i. futures ! i) [0..<length futures])"
    by simp
  also have "\<dots> = mset futures"
    by (simp add: map_nth)
  finally show ?thesis by (simp add: as_completed_def)
qed

lemma length_filter_mset_eq:
  "mset xs = mset ys \<Longrightarrow> length (filter P xs) = length (filter P ys)"
  by (metis mset_filter size_mset)

lemma unique_absorb:
  assumes "distinct ys" and "set zs \<subseteq> set ys"
  shows "unique (ys @ zs) = ys"
proof -
  have "remdups (as @ bs) = remdups bs" if "set as \<subseteq> set bs" for as bs :: "'a list"
    using that by (induction as) auto
  from this[of "rev zs" "rev ys"] assms show ?thesis
    by (simp add: unique_def distinct_remdups_id)
qed

lemma meta_names_facts:
  "distinct (meta_keys @ [''ra'', ''dec''])" "''ztf_object_id'' \<in> set meta_keys"
  "''lightcurve'' \<notin> set (meta_keys @ [''ra'', ''dec''])"
  by (simp_all add: meta_keys_def)

lemma query_ztf_lightcurve_Inr:
  assumes "query_ztf_lightcurve get i = Inr p"
  shows "\<exists>l. get i = Inr (Some l) \<and> format_antares_lc l = Inr (fst p) \<and>
             format_antares_meta l = Inr (snd p)"
  using assms
  by (auto simp: query_ztf_lightcurve_def and_then_def split: sum.splits option.splits)

lemma pair_shape:
  assumes "query_ztf_lightcurve get i = Inr p"
  shows "\<exists>n oid. index (fst p) = replicate n oid \<and> index (snd p) = [oid] \<and>
           map fst (columns (snd p)) = meta_keys @ [''ra'', ''dec''] \<and>
           map_of (columns (snd p)) ''ztf_object_id'' = Some [oid]"
proof -
  from query_ztf_lightcurve_Inr[OF assms] obtain l where
    lc: "format_antares_lc l = Inr (fst p)" and meta: "format_antares_meta l = Inr (snd p)"
    by blast
  from format_antares_lc_Inr[OF lc] obtain oid where
    oid: "properties l ''ztf_object_id'' = Some oid" and
    ix: "index (fst p) = replicate (length (index (lightcurve l))) oid"
    by force
  let ?m = "\<lparr>index = [oid],
            columns = map (\<lambda>key. (key, [get_or_none (properties l) key])) meta_keys
                      @ [(''ra'', [ra l]), (''dec'', [dec l])]\<rparr>"
  have m: "snd p = ?m"
    using meta oid by (simp add: format_antares_meta_eq)
  have "getitem ?m ''ztf_object_id'' = Inr [get_or_none (properties l) ''ztf_object_id'']"
    by (rule getitem_meta_key) (rule meta_names_facts)
  then have "map_of (columns ?m) ''ztf_object_id'' = Some [oid]"
    using oid by (simp add: getitem_def get_or_none_def split: option.splits)
  moreover have "map fst (columns ?m) = meta_keys @ [''ra'', ''dec'']"
    by (simp add: comp_def)
  moreover have "index ?m = [oid]" by simp
  ultimately show ?thesis using ix unfolding m by blast
qed

lemma map_of_tabulate:
  "k \<in> set names \<Longrightarrow> map_of (map (\<lambda>k. (k, F k)) names) k = Some (F k)"
  by (induction names) auto

lemma pd_concat_same_columns:
  assumes "objs \<noteq> []" and "distinct names"
    and "\<forall>df \<in> set objs. map fst (columns df) = names"
  shows "\<exists>M. pd_concat objs = Inr M \<and> index M = concat (map index objs) \<and>
           map fst (columns M) = names \<and>
           (\<forall>k \<in> set names. map_of (columns M) k =
              Some (concat (map (\<lambda>df. case map_of (columns df) k of
                                         Some c \<Rightarrow> c
                                       | None \<Rightarrow> replicate (length (index df)) NaN) objs)))"
proof -
  obtain df rest where objs: "objs = df # rest"
    using assms(1) by (cases objs) auto
  have "concat (map (\<lambda>df. map fst (columns df)) objs)
          = names @ concat (map (\<lambda>df. map fst (columns df)) rest)"
    using assms(3) by (simp add: objs)
  moreover have "set (concat (map (\<lambda>df. map fst (columns df)) rest)) \<subseteq> set names"
    using assms(3) by (auto simp: objs)
  ultimately have u: "unique (concat (map (\<lambda>df. map fst (columns df)) objs)) = names"
    using unique_absorb[OF assms(2)] by simp
  show ?thesis
    using assms(1) by (simp add: pd_concat_def u comp_def map_of_tabulate)
qed

lemma arrival_order_map [simp]:
  "arrival_order arrival (map f xs) = arrival_order arrival xs"
  by (simp add: arrival_order_def)

lemma completed_pairs:
  assumes "arrival_order arrival ids"
    and "r \<in> set (filter (\<lambda>r. \<not> isl r) (as_completed arrival (map (query_ztf_lightcurve get) ids)))"
  shows "\<exists>i \<in> set ids. query_ztf_lightcurve get i = Inr (projr r)"
proof -
  have "mset (as_completed arrival (map (query_ztf_lightcurve get) ids))
          = mset (map (query_ztf_lightcurve get) ids)"
    by (rule mset_as_completed) (simp add: assms(1))
  then have "set (as_completed arrival (map (query_ztf_lightcurve get) ids))
          = set (map (query_ztf_lightcurve get) ids)"
    by (rule mset_eq_setD)
  with assms(2) obtain i where "i \<in> set ids" "r = query_ztf_lightcurve get i" "\<not> isl r"
    by auto
  then show ?thesis by (cases r) auto
qed

lemma batch_normal_form:
  fixes get arrival ids
  defines "ok \<equiv> filter (\<lambda>r. \<not> isl r) (as_completed arrival (map (query_ztf_lightcurve get) ids))"
  assumes w: "0 < w" and arr: "arrival_order arrival ids" and ne: "ok \<noteq> []"
  shows "\<exists>L M. pd_concat (map (\<lambda>r. fst (projr r)) ok) = Inr L \<and>
           pd_concat (map (\<lambda>r. snd (projr r)) ok) = Inr M \<and>
           index L = concat (map (\<lambda>r. index (fst (projr r))) ok) \<and>
           index M = concat (map (\<lambda>r. index (snd (projr r))) ok) \<and>
           length (index M) = length ok \<and>
           map_of (columns M) ''ztf_object_id'' = Some (index M) \<and>
           query_ztf_lightcurves get arrival ids w =
             Inr \<lparr>index = map (\<lambda>i. Num (real i)) [0..<length (index M)],
                  columns = columns M,
                  nested = [(''lightcurve'', map (map_of (pack_flat L)) (index M))]\<rparr>"
proof -
  let ?lcs = "map (\<lambda>r. fst (projr r)) ok" and ?metas = "map (\<lambda>r. snd (projr r)) ok"
  have shape: "\<exists>n oid. index (fst (projr r)) = replicate n oid \<and> index (snd (projr r)) = [oid] \<and>
           map fst (columns (snd (projr r))) = meta_keys @ [''ra'', ''dec''] \<and>
           map_of (columns (snd (projr r))) ''ztf_object_id'' = Some [oid]" if "r \<in> set ok" for r
    using completed_pairs[OF arr that[unfolded ok_def]] pair_shape by blast
  have names: "\<forall>df \<in> set ?metas. map fst (columns df) = meta_keys @ [''ra'', ''dec'']"
    using shape by auto
  have "?metas \<noteq> []" using ne by simp
  from pd_concat_same_columns[OF this meta_names_facts(1) names] obtain M where
    M: "pd_concat ?metas = Inr M" and iM: "index M = concat (map index ?metas)" and
    nM: "map fst (columns M) = meta_keys @ [''ra'', ''dec'']" and
    cM: "\<forall>k \<in> set (meta_keys @ [''ra'', ''dec'']). map_of (columns M) k =
              Some (concat (map (\<lambda>df. case map_of (columns df) k of
                                         Some c \<Rightarrow> c
                                       | None \<Rightarrow> replicate (length (index df)) NaN) ?metas))"
    by blast
  have idcol: "(case map_of (columns df) ''ztf_object_id'' of Some c \<Rightarrow> c
                | None \<Rightarrow> replicate (length (index df)) NaN) = index df" if "df \<in> set ?metas" for df
  proof -
    from that obtain r where "r \<in> set ok" "df = snd (projr r)" by auto
    with shape[of r] obtain oid where "index df = [oid]"
      "map_of (columns df) ''ztf_object_id'' = Some [oid]" by auto
    then show ?thesis by simp
  qed
  have "map_of (columns M) ''ztf_object_id'' = Some (concat (map (\<lambda>df. case map_of (columns df) ''ztf_object_id'' of
                                         Some c \<Rightarrow> c
                                       | None \<Rightarrow> replicate (length (index df)) NaN) ?metas))"
    using cM meta_names_facts(2) by simp
  also have "map (\<lambda>df. case map_of (columns df) ''ztf_object_id'' of
                                         Some c \<Rightarrow> c
                                       | None \<Rightarrow> replicate (length (index df)) NaN) ?metas = map index ?metas"
    using idcol by (intro map_cong refl) blast
  finally have idM: "map_of (columns M) ''ztf_object_id'' = Some (index M)"
    by (simp add: iM)
  have one: "length (index (snd (projr r))) = 1" if "r \<in> set ok" for r
    using shape[OF that] by auto
  have "length (index M) = sum_list (map (\<lambda>r. length (index (snd (projr r)))) ok)"
    by (simp add: iM length_concat comp_def)
  also have "map (\<lambda>r. length (index (snd (projr r)))) ok = map (\<lambda>r. 1) ok"
    using one by (intro map_cong refl)
  finally have lM: "length (index M) = length ok"
    by (simp add: sum_list_triv)
  define L where "L = \<lparr>index = concat (map index ?lcs),
                columns =
                  map (\<lambda>k. (k, concat (map (\<lambda>df. case map_of (columns df) k of
                                                   Some c \<Rightarrow> c
                                                 | None \<Rightarrow> replicate (length (index df)) NaN) ?lcs)))
                      (unique (concat (map (\<lambda>df. map fst (columns df)) ?lcs)))\<rparr>"
  have L: "pd_concat ?lcs = Inr L"
    using ne by (simp add: pd_concat_def L_def)
  have iL: "index L = concat (map (\<lambda>r. index (fst (projr r))) ok)"
    by (simp add: L_def comp_def)
  have iM': "index M = concat (map (\<lambda>r. index (snd (projr r))) ok)"
    by (simp add: iM comp_def)
  have nolc: "''lightcurve'' \<notin> set (map fst (columns M))"
    unfolding nM by (rule meta_names_facts)
  have col: "collect (as_completed arrival (map (query_ztf_lightcurve get) ids)) ([], []) = (?lcs, ?metas)"
    by (simp add: collect_eq ok_def)
  have q: "query_ztf_lightcurves get arrival ids w =
             Inr \<lparr>index = map (\<lambda>i. Num (real i)) [0..<length (index M)],
                  columns = columns M,
                  nested = [(''lightcurve'', map (map_of (pack_flat L)) (index M))]\<rparr>"
    using w nolc
    by (simp add: query_ztf_lightcurves_def col and_then_def L M lcs_to_nested_df_def
          add_nested_def reset_index_drop_def del: set_map)
  show ?thesis
    by (rule exI[of _ L], rule exI[of _ M]) (intro conjI L M iL iM' lM idM q)
qed

section \<open>Claims about the batch call\<close>

lemma empty_lc_eq: "format_antares_lc empty_locus = Inr empty_lc"
  by (simp add: format_antares_lc_def empty_locus_def empty_lc_def pandas_defs)

lemma empty_meta_eq: "format_antares_meta empty_locus = Inr empty_meta"
  by (simp add: format_antares_meta_eq empty_locus_def empty_meta_def meta_keys_def
        get_or_none_def)

lemma archive_results:
  "query_ztf_lightcurve archive ''ZTF21aaa'' = Inr (sample_lc, sample_meta)"
  "query_ztf_lightcurve archive ''ZTF21ddd'' = Inr (empty_lc, empty_meta)"
  "query_ztf_lightcurve archive ''ZTF21zzz'' = Inl (ServiceError ''timeout'')"
  "query_ztf_lightcurve archive ''ZTF00'' = Inl (AttributeError ''lightcurve'')"
  by (simp_all add: query_ztf_lightcurve_def archive_def and_then_def sample_lc_eq sample_meta_eq
        empty_lc_eq empty_meta_eq)

lemma merged_two: "pd_concat [sample_lc, empty_lc] =
    Inr \<lparr>index = [Str ''ZTF21aaa'', Str ''ZTF21aaa'', Str ''ZTF21aaa''], columns = columns sample_lc\<rparr>"
  by (simp add: pd_concat_def unique_def sample_lc_def empty_lc_def)

lemma two_object_eq:
  "query_ztf_lightcurves archive [1, 0] [''ZTF21ddd'', ''ZTF21aaa''] 4 = Inr two_object_dataset"
  by (simp add: query_ztf_lightcurves_def as_completed_def archive_results and_then_def
        pd_concat_def unique_def sample_lc_def empty_lc_def sample_meta_def empty_meta_def
        lcs_to_nested_df_def add_nested_def pack_flat_def getitem_mask_def mask_rows_def
        reset_index_drop_def two_object_dataset_def)



lemma length_successes:
  assumes "arrival_order arrival ids"
  shows "length (filter (\<lambda>r. \<not> isl r) (as_completed arrival (map q ids)))
           = length ids - length (filter (\<lambda>i. isl (q i)) ids)"
proof -
  have "mset (as_completed arrival (map q ids)) = mset (map q ids)"
    by (rule mset_as_completed) (simp add: assms)
  then have "length (filter (\<lambda>r. \<not> isl r) (as_completed arrival (map q ids)))
               = length (filter (\<lambda>r. \<not> isl r) (map q ids))"
    by (rule length_filter_mset_eq)
  also have "\<dots> = length (filter (\<lambda>i. \<not> isl (q i)) ids)"
    by (simp add: filter_map comp_def)
  also have "\<dots> = length ids - length (filter (\<lambda>i. isl (q i)) ids)"
    using sum_length_filter_compl[of "\<lambda>i. isl (q i)" ids] by simp
  finally show ?thesis .
qed



lemma completed_shape:
  assumes "arrival_order arrival ids"
    and "r \<in> set (filter (\<lambda>r. \<not> isl r) (as_completed arrival (map (query_ztf_lightcurve get) ids)))"
  shows "\<exists>n oid. index (fst (projr r)) = replicate n oid \<and> index (snd (projr r)) = [oid]"
  using completed_pairs[OF assms] pair_shape by blast

lemma set_unique [simp]: "set (unique xs) = set xs"
  by (simp add: unique_def)

lemma map_of_pack_flat_None: "map_of (pack_flat obj) i = None \<longleftrightarrow> i \<notin> set (index obj)"
  by (simp add: map_of_eq_None_iff pack_flat_def image_image)

text \<open>
  Claim C1, as stated, fails: a batch whose two lookups both fail raises the
  \<open>ValueError\<close> of \<open>pd.concat\<close> on an empty list, which is not \<open>EmptyBatchError\<close>.
\<close>

theorem all_lookups_fail_counterexample:
  "query_ztf_lightcurves archive [1, 0] [''ZTF21zzz'', ''ZTF00''] 4
     = Inl (ValueError ''No objects to concatenate'') \<and>
   ValueError ''No objects to concatenate'' \<noteq> EmptyBatchError"
  by (simp add: query_ztf_lightcurves_def as_completed_def archive_results and_then_def
        pd_concat_def)

text \<open>
  Claim C1, amended. For any finishing order, a batch in which every identifier fails
  returns no dataset: it raises \<open>ValueError\<close>, the one of \<open>pd.concat\<close> ("No objects to
  concatenate") when the worker bound is positive, the one of the thread pool when it
  is not.
\<close>

theorem all_lookups_fail:
  assumes "arrival_order arrival ztf_object_ids"
    and "\<forall>i \<in> set ztf_object_ids. isl (query_ztf_lightcurve get i)"
  shows "query_ztf_lightcurves get arrival ztf_object_ids max_workers =
           Inl (ValueError (if max_workers \<le> 0 then ''max_workers must be greater than 0''
                            else ''No objects to concatenate''))"
proof -
  let ?ok = "filter (\<lambda>r. \<not> isl r)
               (as_completed arrival (map (query_ztf_lightcurve get) ztf_object_ids))"
  have "filter (\<lambda>i. isl (query_ztf_lightcurve get i)) ztf_object_ids = ztf_object_ids"
    using assms(2) by (simp add: filter_id_conv)
  then have "length ?ok = 0"
    using length_successes[OF assms(1), of "query_ztf_lightcurve get"] by simp
  then have "?ok = []" by (simp only: length_0_conv)
  then have "collect (as_completed arrival (map (query_ztf_lightcurve get) ztf_object_ids)) ([], [])
               = ([], [])"
    by (simp only: collect_eq list.map append_Nil)
  then show ?thesis
    by (simp add: query_ztf_lightcurves_def pd_concat_def and_then_def)
qed

theorem all_lookups_fail_witness:
  "arrival_order [1, 0] [''ZTF21zzz'', ''ZTF00''] \<and>
   isl (query_ztf_lightcurve archive ''ZTF21zzz'') \<and> isl (query_ztf_lightcurve archive ''ZTF00'') \<and>
   query_ztf_lightcurves archive [1, 0] [''ZTF21zzz'', ''ZTF00''] 4
     = Inl (ValueError ''No objects to concatenate'') \<and>
   query_ztf_lightcurves archive [1, 0] [''ZTF21zzz'', ''ZTF00''] 0
     = Inl (ValueError ''max_workers must be greater than 0'')"
proof -
  have h1: "arrival_order [1, 0] [''ZTF21zzz'', ''ZTF00'']"
    by (simp add: arrival_order_def upt_rec eval_nat_numeral)
  have h2: "\<forall>i \<in> set [''ZTF21zzz'', ''ZTF00'']. isl (query_ztf_lightcurve archive i)"
    by (simp add: archive_results)
  show ?thesis
    using h1 h2 all_lookups_fail[OF h1 h2, of 4] all_lookups_fail[OF h1 h2, of 0] by simp
qed

text \<open>
  Claim C6, as stated, fails: an object fetched successfully with no measurement gets
  a top-level row, although no merged lightcurve row carries its identifier.
\<close>

theorem nested_identifiers_counterexample:
  "query_ztf_lightcurves archive [1, 0] [''ZTF21ddd'', ''ZTF21aaa''] 4 = Inr two_object_dataset \<and>
   getitem two_object_dataset ''ztf_object_id'' = Inr [Str ''ZTF21aaa'', Str ''ZTF21ddd''] \<and>
   collect (as_completed [1, 0] (map (query_ztf_lightcurve archive) [''ZTF21ddd'', ''ZTF21aaa'']))
       ([], []) = ([sample_lc, empty_lc], [sample_meta, empty_meta]) \<and>
   pd_concat [sample_lc, empty_lc] =
     Inr \<lparr>index = [Str ''ZTF21aaa'', Str ''ZTF21aaa'', Str ''ZTF21aaa''],
          columns = columns sample_lc\<rparr> \<and>
   set [Str ''ZTF21aaa'', Str ''ZTF21ddd'']
     \<noteq> set [Str ''ZTF21aaa'', Str ''ZTF21aaa'', Str ''ZTF21aaa'']"
proof -
  have "getitem two_object_dataset ''ztf_object_id'' = Inr [Str ''ZTF21aaa'', Str ''ZTF21ddd'']"
    by (simp add: two_object_dataset_def getitem_def)
  moreover have "collect (as_completed [1, 0] (map (query_ztf_lightcurve archive) [''ZTF21ddd'', ''ZTF21aaa'']))
       ([], []) = ([sample_lc, empty_lc], [sample_meta, empty_meta])"
    by (simp add: as_completed_def archive_results)
  moreover have "set [Str ''ZTF21aaa'', Str ''ZTF21ddd'']
     \<noteq> set [Str ''ZTF21aaa'', Str ''ZTF21aaa'', Str ''ZTF21aaa'']"
    by simp
  ultimately show ?thesis
    using two_object_eq merged_two by simp
qed

text \<open>
  Claim C6, amended. In a dataset returned by the batch call, every identifier on a
  merged lightcurve row is the identifier of a top-level row; a top-level row has a
  null \<open>lightcurve\<close> entry exactly when no merged row carries its identifier; and when
  every collected lightcurve table has at least one row, the two sets of identifiers
  are equal.
\<close>

theorem nested_identifiers:
  assumes "arrival_order arrival ztf_object_ids"
    and "query_ztf_lightcurves get arrival ztf_object_ids max_workers = Inr nested_df"
  shows "\<exists>lightcurves metas merged ids sub.
           collect (as_completed arrival (map (query_ztf_lightcurve get) ztf_object_ids)) ([], [])
             = (lightcurves, metas) \<and>
           pd_concat lightcurves = Inr merged \<and>
           getitem nested_df ''ztf_object_id'' = Inr ids \<and>
           nested nested_df = [(''lightcurve'', sub)] \<and>
           length sub = length ids \<and>
           set (index merged) \<subseteq> set ids \<and>
           (\<forall>k < length ids. sub ! k = None \<longleftrightarrow> ids ! k \<notin> set (index merged)) \<and>
           ((\<forall>lc \<in> set lightcurves. index lc \<noteq> []) \<longrightarrow> set (index merged) = set ids)"
proof -
  let ?done = "as_completed arrival (map (query_ztf_lightcurve get) ztf_object_ids)"
  let ?ok = "filter (\<lambda>r. \<not> isl r) ?done"
  let ?lcs = "map (\<lambda>r. fst (projr r)) ?ok" and ?metas = "map (\<lambda>r. snd (projr r)) ?ok"
  have col: "collect ?done ([], []) = (?lcs, ?metas)"
    by (simp add: collect_eq)
  have w: "0 < max_workers"
    using assms(2) by (auto simp: query_ztf_lightcurves_def split: if_splits)
  have ne: "?ok \<noteq> []"
  proof
    assume "?ok = []"
    then have "collect ?done ([], []) = ([], [])"
      by (simp only: collect_eq list.map append_Nil)
    then have "query_ztf_lightcurves get arrival ztf_object_ids max_workers
                 = Inl (ValueError ''No objects to concatenate'')"
      using w by (simp add: query_ztf_lightcurves_def pd_concat_def and_then_def)
    with assms(2) show False by simp
  qed
  from batch_normal_form[OF w assms(1) ne] obtain L M where
    nf: "pd_concat ?lcs = Inr L \<and>
           pd_concat ?metas = Inr M \<and>
           index L = concat (map (\<lambda>r. index (fst (projr r))) ?ok) \<and>
           index M = concat (map (\<lambda>r. index (snd (projr r))) ?ok) \<and>
           length (index M) = length ?ok \<and>
           map_of (columns M) ''ztf_object_id'' = Some (index M) \<and>
           query_ztf_lightcurves get arrival ztf_object_ids max_workers =
             Inr \<lparr>index = map (\<lambda>i. Num (real i)) [0..<length (index M)],
                  columns = columns M,
                  nested = [(''lightcurve'', map (map_of (pack_flat L)) (index M))]\<rparr>"
    by (elim exE) (rule that)
  from nf have L: "pd_concat ?lcs = Inr L" by (elim conjE)
  from nf have iL: "index L = concat (map (\<lambda>r. index (fst (projr r))) ?ok)" by (elim conjE)
  from nf have iM: "index M = concat (map (\<lambda>r. index (snd (projr r))) ?ok)" by (elim conjE)
  from nf have idM: "map_of (columns M) ''ztf_object_id'' = Some (index M)" by (elim conjE)
  from nf have q: "query_ztf_lightcurves get arrival ztf_object_ids max_workers =
             Inr \<lparr>index = map (\<lambda>i. Num (real i)) [0..<length (index M)],
                  columns = columns M,
                  nested = [(''lightcurve'', map (map_of (pack_flat L)) (index M))]\<rparr>"
    by (elim conjE)
  let ?sub = "map (map_of (pack_flat L)) (index M)"
  have ds: "nested_df = \<lparr>index = map (\<lambda>i. Num (real i)) [0..<length (index M)],
                  columns = columns M, nested = [(''lightcurve'', ?sub)]\<rparr>"
    using q assms(2) by simp
  have a: "getitem nested_df ''ztf_object_id'' = Inr (index M)"
    using idM by (simp add: ds getitem_def)
  have b: "nested nested_df = [(''lightcurve'', ?sub)]"
    by (simp add: ds)
  have c: "length ?sub = length (index M)"
    by simp
  have sL: "set (index L) = (\<Union>r \<in> set ?ok. set (index (fst (projr r))))"
    by (simp only: iL set_concat set_map image_image)
  have sM: "set (index M) = (\<Union>r \<in> set ?ok. set (index (snd (projr r))))"
    by (simp only: iM set_concat set_map image_image)
  have sub1: "set (index (fst (projr r))) \<subseteq> set (index (snd (projr r)))" if "r \<in> set ?ok" for r
    using completed_shape[OF assms(1) that] by auto
  have d: "set (index L) \<subseteq> set (index M)"
    unfolding sL sM using sub1 by blast
  have e: "\<forall>k < length (index M). ?sub ! k = None \<longleftrightarrow> index M ! k \<notin> set (index L)"
    by (simp add: map_of_pack_flat_None)
  have f: "(\<forall>lc \<in> set ?lcs. index lc \<noteq> []) \<longrightarrow> set (index L) = set (index M)"
  proof
    assume full: "\<forall>lc \<in> set ?lcs. index lc \<noteq> []"
    have "set (index (snd (projr r))) \<subseteq> set (index (fst (projr r)))" if "r \<in> set ?ok" for r
    proof -
      from completed_shape[OF assms(1) that] obtain n oid where
        s: "index (fst (projr r)) = replicate n oid" "index (snd (projr r)) = [oid]" by blast
      have "index (fst (projr r)) \<noteq> []" using full that by simp
      then have "n \<noteq> 0" using s by auto
      then show ?thesis using s by simp
    qed
    then have "set (index M) \<subseteq> set (index L)"
      unfolding sL sM by blast
    with d show "set (index L) = set (index M)" by blast
  qed
  show ?thesis
    by (rule exI[of _ ?lcs], rule exI[of _ ?metas], rule exI[of _ L], rule exI[of _ "index M"],
        rule exI[of _ ?sub])
       (intro conjI col L a b c d e f)
qed

lemma one_object_eq:
  "query_ztf_lightcurves archive [1, 0] [''ZTF21zzz'', ''ZTF21aaa''] 4 = Inr one_object_dataset"
  by (simp add: query_ztf_lightcurves_def as_completed_def archive_results and_then_def
        pd_concat_def unique_def sample_lc_def sample_meta_def
        lcs_to_nested_df_def add_nested_def pack_flat_def getitem_mask_def mask_rows_def
        reset_index_drop_def one_object_dataset_def)

theorem nested_identifiers_witness:
  "arrival_order [1, 0] [''ZTF21zzz'', ''ZTF21aaa''] \<and>
   query_ztf_lightcurves archive [1, 0] [''ZTF21zzz'', ''ZTF21aaa''] 4 = Inr one_object_dataset \<and>
   collect (as_completed [1, 0] (map (query_ztf_lightcurve archive) [''ZTF21zzz'', ''ZTF21aaa'']))
       ([], []) = ([sample_lc], [sample_meta]) \<and>
   pd_concat [sample_lc] = Inr sample_lc \<and>
   index sample_lc \<noteq> [] \<and>
   getitem one_object_dataset ''ztf_object_id'' = Inr [Str ''ZTF21aaa''] \<and>
   set (index sample_lc) = set [Str ''ZTF21aaa'']"
proof -
  have h1: "arrival_order [1, 0] [''ZTF21zzz'', ''ZTF21aaa'']"
    by (simp add: arrival_order_def upt_rec eval_nat_numeral)
  have c: "collect (as_completed [1, 0] (map (query_ztf_lightcurve archive) [''ZTF21zzz'', ''ZTF21aaa'']))
       ([], []) = ([sample_lc], [sample_meta])"
    by (simp add: as_completed_def archive_results)
  have m: "pd_concat [sample_lc] = Inr sample_lc"
    by (simp add: pd_concat_def unique_def sample_lc_def)
  have g: "getitem one_object_dataset ''ztf_object_id'' = Inr [Str ''ZTF21aaa'']"
    by (simp add: one_object_dataset_def sample_meta_def getitem_def)
  have s: "index sample_lc \<noteq> []" "set (index sample_lc) = set [Str ''ZTF21aaa'']"
    by (simp_all add: sample_lc_def)
  show ?thesis
    using h1 c m g s nested_identifiers[OF h1 one_object_eq] one_object_eq by simp
qed

section \<open>Claims about the chart renderer\<close>















end
